theory Spec2Isabelle
  imports Main
begin

section \<open>Data model of the implant-side HTTP transport (sliver/transports/tcp-http.go)\<close>

text \<open>
  Go's \<^verbatim>\<open>[]byte\<close> and \<^verbatim>\<open>string\<close> are both sequences of bytes, and a HOL
  \<^typ>\<open>char\<close> is one byte, so both are lists of characters; the conversion
  \<^verbatim>\<open>string(b)\<close> is the identity on the contents. A nil slice and an empty slice
  are both the empty list. \<^verbatim>\<open>AESKey\<close> is a byte array.
\<close>

type_synonym bytes = "char list"
type_synonym AESKey = "char list"

text \<open>
  A Go \<^verbatim>\<open>error\<close> value carries its message: \<^verbatim>\<open>errors.New(msg)\<close> is
  \<open>Error msg\<close>, and the errors handed back by the library calls are values of the same
  type. A Go function returning \<^verbatim>\<open>([]byte, error)\<close> returns a pair whose second
  component is \<open>None\<close> for a nil error: the source sometimes drops the error and uses
  the data all the same.

  A run-time panic (nil dereference, failed type assertion) is the outcome \<open>Panics\<close>;
  it is neither a returned value nor a returned error.
\<close>

datatype error = Error string

datatype 'a result = Returns 'a | Panics

definition time_Second :: int where
  "time_Second = 1000000000"

definition defaultTimeout :: int where
  "defaultTimeout = time_Second * 10"

definition defaultReqTimeout :: int where
  "defaultReqTimeout = time_Second * 60"

record Transport =
  DialTimeout :: int
  TLSHandshakeTimeout :: int

record HTTPClient =
  Timeout :: int
  Transport :: "Transport option"

record Request =
  Method :: string
  URL :: string
  Body :: "bytes option"

record Response =
  StatusCode :: int
  RespBody :: bytes

record SliverHTTPClient =
  Origin :: string
  Client :: HTTPClient
  SessionKey :: "AESKey option"
  SessionID :: string

text \<open>What the library types used by the handshake expose to this file.\<close>

datatype rsa_PublicKey = RSAPub nat nat

datatype PublicKey = RSAKey rsa_PublicKey | ECDSAKey | DSAKey | NoKey

record Certificate =
  PublicKey :: PublicKey

record Block =
  BlockType :: string
  Bytes :: bytes

record ParsedURL =
  Scheme :: string
  Authority :: string
  Path :: string

subsection \<open>The surroundings of the transport\<close>

text \<open>
  The functions this file calls but does not define are parameters, with the result
  shape their Go signatures give them. A pointer result that the source uses after
  dropping the error (\<^verbatim>\<open>req, _ := http.NewRequest(...)\<close>,
  \<^verbatim>\<open>url, _ := url.Parse(...)\<close>, \<^verbatim>\<open>cert, _ := x509.ParseCertificate(...)\<close>,
  \<^verbatim>\<open>pubKeyBlock, _ := pem.Decode(data)\<close>) is an option: \<open>None\<close> is nil.
  \<open>RoundTrip\<close> is the network as the client sees it: the answer to a request, given
  the client's configuration and the requests sent before, is a transport error or a
  response whose body has been read. \<open>Debug\<close> is the build flag of the
  \<^verbatim>\<open>{{if .Debug}}\<close> blocks.
\<close>

record extern =
  Debug :: bool
  http_NewRequest :: "string \<Rightarrow> string \<Rightarrow> bytes option \<Rightarrow> Request option"
  RoundTrip :: "HTTPClient \<Rightarrow> Request list \<Rightarrow> Request \<Rightarrow> error + Response"
  url_Parse :: "string \<Rightarrow> ParsedURL option"
  path_Join :: "string \<Rightarrow> string \<Rightarrow> string"
  url_String :: "ParsedURL \<Rightarrow> string"
  pem_Decode :: "bytes \<Rightarrow> Block option"
  fingerprintSHA256 :: "Block \<Rightarrow> string"
  rootOnlyVerifyCertificate :: "bytes list \<Rightarrow> Certificate list list \<Rightarrow> error option"
  x509_ParseCertificate :: "bytes \<Rightarrow> Certificate option"
  proto_Marshal_HTTPSessionInit :: "AESKey \<Rightarrow> bytes"
  RSAEncrypt :: "bytes \<Rightarrow> rsa_PublicKey \<Rightarrow> bytes \<times> error option"
  GCMEncrypt :: "AESKey \<Rightarrow> bytes \<Rightarrow> bytes \<times> error option"
  GCMDecrypt :: "AESKey \<Rightarrow> bytes \<Rightarrow> bytes \<times> error option"
  rand_keys :: "nat \<Rightarrow> AESKey"

text \<open>
  What a run changes: the requests handed to the network so far, the lines logged, and
  how many keys have been drawn from the random source.
\<close>

datatype fmt_arg = IntArg int | StrArg string | ErrArg "error option"

record world =
  sent :: "Request list"
  logs :: "(string \<times> fmt_arg list) list"
  rand_pos :: nat

text \<open>
  A logged line is kept as the format string and its arguments, unformatted.
  Every call of \<^verbatim>\<open>log.Printf\<close> in this file stands inside a block of the build
  template guarded by the debug flag (written \<^verbatim>\<open>{{if .Debug}}\<close> or
  \<^verbatim>\<open>{{if. Debug}}\<close>), so it writes only in a debug build.
\<close>

definition log_Printf :: "extern \<Rightarrow> string \<Rightarrow> fmt_arg list \<Rightarrow> world \<Rightarrow> world" where
  "log_Printf X format args w = (if Debug X then w\<lparr>logs := logs w @ [(format, args)]\<rparr> else w)"

text \<open>
  Modelled from the spec: \<^verbatim>\<open>RandomAESKey\<close> is not in these sources; the spec's
  \<^verbatim>\<open>generateSymmetricKey() -> SessionKey\<close> draws a random key of fixed length. Each
  call takes the next key of the random source.
\<close>

definition RandomAESKey :: "extern \<Rightarrow> world \<Rightarrow> AESKey \<times> world" where
  "RandomAESKey X w = (rand_keys X (rand_pos w), w\<lparr>rand_pos := Suc (rand_pos w)\<rparr>)"

text \<open>
  \<^verbatim>\<open>s.Client.Do(req)\<close>: the library dereferences the request, so a nil request
  panics; otherwise the request goes to the network and is recorded.
\<close>

definition Client_Do ::
  "extern \<Rightarrow> HTTPClient \<Rightarrow> Request option \<Rightarrow> world \<Rightarrow> (error + Response) result \<times> world" where
  "Client_Do X c req w =
     (case req of
        None \<Rightarrow> (Panics, w)
      | Some r \<Rightarrow> (Returns (RoundTrip X c (sent w) r), w\<lparr>sent := sent w @ [r]\<rparr>))"

section \<open>The transport's functions\<close>

definition httpClient :: "string \<Rightarrow> SliverHTTPClient" where
  "httpClient address =
     \<lparr>Origin = ''http://'' @ address,
      Client = \<lparr>Timeout = defaultReqTimeout, Transport = None\<rparr>,
      SessionKey = None,
      SessionID = ''''\<rparr>"

definition httpsClient :: "string \<Rightarrow> SliverHTTPClient" where
  "httpsClient address =
     \<lparr>Origin = ''https://'' @ address,
      Client = \<lparr>Timeout = defaultReqTimeout,
                Transport = Some \<lparr>DialTimeout = defaultTimeout,
                                  TLSHandshakeTimeout = defaultTimeout\<rparr>\<rparr>,
      SessionKey = None,
      SessionID = ''''\<rparr>"

text \<open>\<^verbatim>\<open>toURL\<close> writes to \<^verbatim>\<open>url.Path\<close>: a nil \<^verbatim>\<open>url\<close> panics.\<close>

definition toURL :: "extern \<Rightarrow> SliverHTTPClient \<Rightarrow> string \<Rightarrow> string result" where
  "toURL X s urlPath =
     (case url_Parse X (Origin s) of
        None \<Rightarrow> Panics
      | Some url \<Rightarrow> Returns (url_String X (url\<lparr>Path := path_Join X (Path url) urlPath\<rparr>)))"

definition getPublicKey ::
  "extern \<Rightarrow> SliverHTTPClient \<Rightarrow> world \<Rightarrow> rsa_PublicKey option result \<times> world" where
  "getPublicKey X s w =
     (let req = http_NewRequest X ''GET'' (Origin s @ ''/rsakey'') None in
      case Client_Do X (Client s) req w of
        (Panics, w1) \<Rightarrow> (Panics, w1)
      | (Returns (Inl err), w1) \<Rightarrow>
          (Returns None, log_Printf X ''Failed to fetch server public key'' [] w1)
      | (Returns (Inr resp), w1) \<Rightarrow>
          if StatusCode resp \<noteq> 200
          then (Returns None, log_Printf X ''Failed to fetch server public key'' [] w1)
          else
            (let data = RespBody resp in
             case pem_Decode X data of
               None \<Rightarrow> (Returns None, log_Printf X ''failed to parse certificate PEM'' [] w1)
             | Some pubKeyBlock \<Rightarrow>
                 (let w2 = log_Printf X ''RSA Fingerprint: %s'' [StrArg (fingerprintSHA256 X pubKeyBlock)] w1
                  in case rootOnlyVerifyCertificate X [Bytes pubKeyBlock] [] of
                       None \<Rightarrow>
                         (case x509_ParseCertificate X (Bytes pubKeyBlock) of
                            None \<Rightarrow> (Panics, w2)
                          | Some cert \<Rightarrow>
                              (case PublicKey cert of
                                 RSAKey k \<Rightarrow> (Returns (Some k), w2)
                               | _ \<Rightarrow> (Panics, w2)))
                     | Some certErr \<Rightarrow>
                         (Returns None,
                          log_Printf X ''Invalid certificate %v'' [ErrArg None] w2))))"

text \<open>
  \<^verbatim>\<open>getSessionID\<close> checks the transport error only; the status code of the response
  is not read. It assigns \<^verbatim>\<open>s.SessionID\<close>, so the client is returned with the result.
\<close>

definition getSessionID ::
  "extern \<Rightarrow> SliverHTTPClient \<Rightarrow> bytes \<Rightarrow> world \<Rightarrow>
     error option result \<times> SliverHTTPClient \<times> world" where
  "getSessionID X s sessionInit w =
     (case toURL X s ''/start'' of
        Panics \<Rightarrow> (Panics, s, w)
      | Returns u \<Rightarrow>
          (let req = http_NewRequest X ''POST'' u (Some sessionInit) in
           case Client_Do X (Client s) req w of
             (Panics, w1) \<Rightarrow> (Panics, s, w1)
           | (Returns (Inl err), w1) \<Rightarrow> (Returns (Some err), s, w1)
           | (Returns (Inr resp), w1) \<Rightarrow>
               (let respData = RespBody resp in
                case SessionKey s of
                  None \<Rightarrow> (Panics, s, w1)
                | Some key \<Rightarrow>
                    (case GCMDecrypt X key respData of
                       (sessionID, Some err) \<Rightarrow> (Returns (Some err), s, w1)
                     | (sessionID, None) \<Rightarrow>
                         (Returns None, s\<lparr>SessionID := sessionID\<rparr>, w1)))))"

definition SessionInit ::
  "extern \<Rightarrow> SliverHTTPClient \<Rightarrow> world \<Rightarrow>
     error option result \<times> SliverHTTPClient \<times> world" where
  "SessionInit X s w =
     (case getPublicKey X s w of
        (Panics, w1) \<Rightarrow> (Panics, s, w1)
      | (Returns None, w1) \<Rightarrow>
          (Returns (Some (Error ''error'')), s, log_Printf X ''Invalid public key'' [] w1)
      | (Returns (Some publicKey), w1) \<Rightarrow>
          (case RandomAESKey X w1 of
             (skey, w2) \<Rightarrow>
               (let s1 = s\<lparr>SessionKey := Some skey\<rparr>;
                    data = proto_Marshal_HTTPSessionInit X skey
                in case RSAEncrypt X data publicKey of
                     (encryptedSessionInit, Some err) \<Rightarrow>
                       (Returns (Some err), s1,
                        log_Printf X ''RSA encrypt failed %v'' [ErrArg (Some err)] w2)
                   | (encryptedSessionInit, None) \<Rightarrow>
                       getSessionID X s1 encryptedSessionInit w2)))"

text \<open>
  \<^verbatim>\<open>HTTPStartSession\<close> returns \<^verbatim>\<open>(*SliverHTTPClient, error)\<close>: the client pointer
  is nil when the error is not.
\<close>

definition HTTPStartSession ::
  "extern \<Rightarrow> string \<Rightarrow> world \<Rightarrow>
     (SliverHTTPClient option \<times> error option) result \<times> world" where
  "HTTPStartSession X address w =
     (case SessionInit X (httpsClient address) w of
        (Panics, client, w1) \<Rightarrow> (Panics, w1)
      | (Returns None, client, w1) \<Rightarrow> (Returns (Some client, None), w1)
      | (Returns (Some err), client, w1) \<Rightarrow>
          (case SessionInit X (httpClient address) w1 of
             (Panics, client2, w2) \<Rightarrow> (Panics, w2)
           | (Returns None, client2, w2) \<Rightarrow> (Returns (Some client2, None), w2)
           | (Returns (Some err2), client2, w2) \<Rightarrow> (Returns (None, Some err2), w2)))"

definition Get ::
  "extern \<Rightarrow> SliverHTTPClient \<Rightarrow> string \<Rightarrow> world \<Rightarrow> (bytes \<times> error option) result \<times> world" where
  "Get X s urlPath w =
     (if SessionID s = '''' \<or> SessionKey s = None
      then (Returns ([], Some (Error ''no session'')), w)
      else
        (case toURL X s urlPath of
           Panics \<Rightarrow> (Panics, w)
         | Returns u \<Rightarrow>
             (let req = http_NewRequest X ''GET'' u None in
              case Client_Do X (Client s) req w of
                (Panics, w1) \<Rightarrow> (Panics, w1)
              | (Returns (Inl err), w1) \<Rightarrow>
                  (Returns ([], Some err),
                   log_Printf X ''[http] GET failed %v'' [ErrArg (Some err)] w1)
              | (Returns (Inr resp), w1) \<Rightarrow>
                  if StatusCode resp \<noteq> 200
                  then (Returns ([], Some (Error ''Non-200 response code'')), w1)
                  else
                    (let respData = RespBody resp in
                     case SessionKey s of
                       None \<Rightarrow> (Panics, w1)
                     | Some key \<Rightarrow> (Returns (GCMDecrypt X key respData), w1)))))"

text \<open>
  In \<^verbatim>\<open>Post\<close> the error of \<^verbatim>\<open>GCMEncrypt\<close> is bound to \<^verbatim>\<open>err\<close> and then
  overwritten by the error of \<^verbatim>\<open>s.Client.Do\<close> without having been read: the request
  body is whatever bytes \<^verbatim>\<open>GCMEncrypt\<close> returned.
\<close>

definition Post ::
  "extern \<Rightarrow> SliverHTTPClient \<Rightarrow> string \<Rightarrow> bytes \<Rightarrow> world \<Rightarrow>
     (bytes \<times> error option) result \<times> world" where
  "Post X s urlPath data w =
     (if SessionID s = '''' \<or> SessionKey s = None
      then (Returns ([], Some (Error ''no session'')), w)
      else
        (case SessionKey s of
           None \<Rightarrow> (Panics, w)
         | Some key \<Rightarrow>
             (case GCMEncrypt X key data of
                (reqData, encErr) \<Rightarrow>
                  (case toURL X s urlPath of
                     Panics \<Rightarrow> (Panics, w)
                   | Returns u \<Rightarrow>
                       (let req = http_NewRequest X ''POST'' u (Some reqData) in
                        case Client_Do X (Client s) req w of
                          (Panics, w1) \<Rightarrow> (Panics, w1)
                        | (Returns (Inl err), w1) \<Rightarrow>
                            (Returns ([], Some err),
                             log_Printf X ''[http] POST failed %v'' [ErrArg (Some err)] w1)
                        | (Returns (Inr resp), w1) \<Rightarrow>
                            if StatusCode resp \<noteq> 200
                            then (Returns ([], Some (Error ''Non-200 response code'')), w1)
                            else (Returns (GCMDecrypt X key (RespBody resp)), w1))))))"

section \<open>The controller-side port-forward dispatch (server/rpc/rpc-portfwd.go)\<close>

text \<open>
  The protobuf schema is not part of these sources; the fields of \<^verbatim>\<open>PortFwdReq\<close>
  are those the handler reads and writes, with identifiers and the port as integers.
\<close>

record PortFwdReq =
  Host :: string
  Port :: int
  SliverID :: int
  TunnelID :: int

record Sliver =
  ID :: int

record Tunnel =
  ID :: int

text \<open>
  Modelled from the spec: the registries \<^verbatim>\<open>core.Hive\<close> and \<^verbatim>\<open>core.Tunnels\<close>,
  the implant's \<^verbatim>\<open>Request\<close> method, the message type and the package's
  \<^verbatim>\<open>defaultTimeout\<close> are not in these sources. The spec gives them as the lookup
  capabilities \<^verbatim>\<open>resolveImplant(id)\<close>, \<^verbatim>\<open>resolveTunnel(id)\<close> and
  \<^verbatim>\<open>forward(implant, message, timeout) -> reply\<close>, where a lookup can miss. The
  handler uses the result of a lookup as a pointer (\<^verbatim>\<open>sliver.ID\<close>,
  \<^verbatim>\<open>sliver.Request\<close>, \<^verbatim>\<open>tunnel.ID\<close>), and the lookups return one value, so a
  miss is the nil pointer, \<open>None\<close>. The reply of an implant may depend on what was
  forwarded before.

  \<^verbatim>\<open>proto.Unmarshal\<close> fills the message it is given and its error is dropped by the
  handler, so it is a function to the message as filled; \<^verbatim>\<open>proto.Marshal\<close> returns
  bytes and an error.
\<close>

type_synonym forward = "Sliver \<times> nat \<times> int \<times> bytes"

record rpc_extern =
  proto_Unmarshal :: "bytes \<Rightarrow> PortFwdReq"
  proto_Marshal :: "PortFwdReq \<Rightarrow> bytes \<times> error option"
  Hive_Sliver :: "int \<Rightarrow> Sliver option"
  Tunnels_Tunnel :: "int \<Rightarrow> Tunnel option"
  Sliver_Request :: "forward list \<Rightarrow> Sliver \<Rightarrow> nat \<Rightarrow> int \<Rightarrow> bytes \<Rightarrow> bytes \<times> error option"
  MsgPortfwdReq :: nat
  rpc_defaultTimeout :: int

text \<open>
  What a call of the handler leaves behind: the calls of the \<^verbatim>\<open>resp\<close> callback, the
  requests forwarded to implants, and the lines of \<^verbatim>\<open>rpcLog\<close>.
\<close>

record rpc_world =
  responses :: "(bytes \<times> error option) list"
  forwards :: "forward list"
  rpcLog :: "(string \<times> fmt_arg list) list"

text \<open>
  The handler reads \<^verbatim>\<open>sliver.ID\<close> and \<^verbatim>\<open>tunnel.ID\<close> with no nil check, in this
  order, while it builds the message to marshal: a lookup that missed panics there.
\<close>

definition rpcPortfwd :: "rpc_extern \<Rightarrow> bytes \<Rightarrow> rpc_world \<Rightarrow> unit result \<times> rpc_world" where
  "rpcPortfwd R req w =
     (let pfwdReq = proto_Unmarshal R req;
          sliver = Hive_Sliver R (SliverID pfwdReq);
          tunnel = Tunnels_Tunnel R (TunnelID pfwdReq)
      in case sliver of
           None \<Rightarrow> (Panics, w)
         | Some sl \<Rightarrow>
             (case tunnel of
                None \<Rightarrow> (Panics, w)
              | Some tn \<Rightarrow>
                  (case proto_Marshal R \<lparr>Host = Host pfwdReq, Port = Port pfwdReq,
                                          SliverID = Sliver.ID sl, TunnelID = Tunnel.ID tn\<rparr> of
                     (startPortFwdReq, Some err) \<Rightarrow>
                       (Returns (), w\<lparr>responses := responses w @ [([], Some err)]\<rparr>)
                   | (startPortFwdReq, None) \<Rightarrow>
                       (let w1 = w\<lparr>rpcLog := rpcLog w @
                                   [(''Requesting Sliver %d to start a forward rule to %s:%d'',
                                     [IntArg (Sliver.ID sl), StrArg (Host pfwdReq),
                                      IntArg (Port pfwdReq)])]\<rparr>;
                            reply = Sliver_Request R (forwards w1) sl (MsgPortfwdReq R)
                                      (rpc_defaultTimeout R) startPortFwdReq;
                            w2 = w1\<lparr>forwards := forwards w1 @
                                   [(sl, MsgPortfwdReq R, rpc_defaultTimeout R, startPortFwdReq)]\<rparr>
                        in (Returns (), w2\<lparr>responses := responses w2 @ [reply]\<rparr>)))))"

section \<open>Concrete surroundings for running the functions\<close>

text \<open>
  A small laboratory: requests are built from their parts, URLs are joined by
  concatenation, the one trusted certificate is the byte string \<open>pinned\<close> holding an
  RSA key, symmetric encryption prefixes the key and decryption checks and strips it.
  The network is a parameter.
\<close>

definition lab :: "(HTTPClient \<Rightarrow> Request list \<Rightarrow> Request \<Rightarrow> error + Response) \<Rightarrow> extern" where
  "lab net =
     \<lparr>Debug = False,
      http_NewRequest = (\<lambda>m u b. Some \<lparr>Method = m, URL = u, Body = b\<rparr>),
      RoundTrip = net,
      url_Parse = (\<lambda>raw. Some \<lparr>Scheme = [], Authority = raw, Path = []\<rparr>),
      path_Join = (\<lambda>a b. a @ b),
      url_String = (\<lambda>u. Scheme u @ Authority u @ Path u),
      pem_Decode =
        (\<lambda>d. if d = [] then None else Some \<lparr>BlockType = ''CERTIFICATE'', Bytes = d\<rparr>),
      fingerprintSHA256 = (\<lambda>b. ''00''),
      rootOnlyVerifyCertificate =
        (\<lambda>raw chains. if raw = [''pinned''] then None
                      else Some (Error ''x509: certificate signed by unknown authority'')),
      x509_ParseCertificate =
        (\<lambda>der. if der = ''pinned'' then Some \<lparr>PublicKey = RSAKey (RSAPub 3233 17)\<rparr>
               else None),
      proto_Marshal_HTTPSessionInit = (\<lambda>k. k),
      RSAEncrypt = (\<lambda>d k. (rev d, None)),
      GCMEncrypt = (\<lambda>k d. (k @ d, None)),
      GCMDecrypt =
        (\<lambda>k c. if take (length k) c = k then (drop (length k) c, None)
               else ([], Some (Error ''cipher: message authentication failed''))),
      rand_keys = (\<lambda>n. replicate (Suc n) (CHR ''k''))\<rparr>"

definition w0 :: world where
  "w0 = \<lparr>sent = [], logs = [], rand_pos = 0\<rparr>"

text \<open>
  A server that answers a request by its URL alone: \<open>table\<close> lists the URLs it knows
  with status and body; any other URL is refused at the transport.
\<close>

definition serve ::
  "(string \<times> int \<times> bytes) list \<Rightarrow> HTTPClient \<Rightarrow> Request list \<Rightarrow> Request \<Rightarrow> error + Response" where
  "serve table c history r =
     (case map_of table (URL r) of
        None \<Rightarrow> Inl (Error ''dial tcp: connection refused'')
      | Some (status, body) \<Rightarrow> Inr \<lparr>StatusCode = status, RespBody = body\<rparr>)"

definition established :: SliverHTTPClient where
  "established = (httpsClient ''c2'')\<lparr>SessionKey := Some ''k'', SessionID := ''abc123''\<rparr>"

text \<open>
  The controller's laboratory: implant 7 and tunnel 42 are registered, the wire format
  is a readable rendering of the fields, marshalling rejects a host holding the byte
  \<open>0xFF\<close> (never valid in UTF-8), and an implant answers with the bytes \<open>ok\<close>.
\<close>

definition rpc_lab :: rpc_extern where
  "rpc_lab =
     \<lparr>proto_Unmarshal =
        (\<lambda>b. if b = ''fwd 7 42'' then \<lparr>Host = ''10.0.0.5'', Port = 8080, SliverID = 7, TunnelID = 42\<rparr>
             else if b = ''fwd 9 42'' then \<lparr>Host = ''10.0.0.5'', Port = 8080, SliverID = 9, TunnelID = 42\<rparr>
             else if b = ''fwd 7 43'' then \<lparr>Host = ''10.0.0.5'', Port = 8080, SliverID = 7, TunnelID = 43\<rparr>
             else if b = ''bad 7 42'' then \<lparr>Host = [CHR 0xFF], Port = 8080, SliverID = 7, TunnelID = 42\<rparr>
             else \<lparr>Host = [], Port = 0, SliverID = 0, TunnelID = 0\<rparr>),
      proto_Marshal =
        (\<lambda>m. if CHR 0xFF \<in> set (Host m)
             then ([], Some (Error ''proto: field contains invalid UTF-8''))
             else (Host m, None)),
      Hive_Sliver = (\<lambda>i. if i = 7 then Some \<lparr>Sliver.ID = 7\<rparr> else None),
      Tunnels_Tunnel = (\<lambda>i. if i = 42 then Some \<lparr>Tunnel.ID = 42\<rparr> else None),
      Sliver_Request = (\<lambda>history sl msgType timeout data. (''ok'', None)),
      MsgPortfwdReq = 23,
      rpc_defaultTimeout = 30000000000\<rparr>"

definition rw0 :: rpc_world where
  "rw0 = \<lparr>responses = [], forwards = [], rpcLog = []\<rparr>"

text \<open>Server tables and variations of the laboratory used below.\<close>

definition tls_site :: "(string \<times> int \<times> bytes) list" where
  "tls_site = [(''https://c2/rsakey'', 200, ''pinned''), (''https://c2/start'', 200, ''kabc123'')]"

definition plain_only :: "(string \<times> int \<times> bytes) list" where
  "plain_only = [(''http://c2/rsakey'', 200, ''pinned''), (''http://c2/start'', 200, ''kabc123'')]"

definition plain_key_only :: "(string \<times> int \<times> bytes) list" where
  "plain_key_only = [(''http://c2/rsakey'', 200, ''pinned'')]"

definition half_tls :: "(string \<times> int \<times> bytes) list" where
  "half_tls = [(''https://c2/rsakey'', 200, ''pinned''), (''http://c2/rsakey'', 200, ''pinned''),
               (''http://c2/start'', 200, ''kkabc123'')]"

definition bad_status :: "(string \<times> int \<times> bytes) list" where
  "bad_status = [(''https://c2/rsakey'', 404, ''pinned'')]"

definition bad_pem :: "(string \<times> int \<times> bytes) list" where
  "bad_pem = [(''https://c2/rsakey'', 200, [])]"

definition unpinned :: "(string \<times> int \<times> bytes) list" where
  "unpinned = [(''https://c2/rsakey'', 200, ''forged'')]"

definition empty_id_site :: "(string \<times> int \<times> bytes) list" where
  "empty_id_site = [(''https://c2/rsakey'', 200, ''pinned''), (''https://c2/start'', 200, ''k'')]"

definition start_refuses :: "(string \<times> int \<times> bytes) list" where
  "start_refuses = [(''https://c2/start'', 500, ''kabc123'')]"

definition cmd_site :: "(string \<times> int \<times> bytes) list" where
  "cmd_site = [(''https://c2/cmd'', 200, ''kdone'')]"

text \<open>A verifier that accepts every certificate, and a parser that finds an ECDSA key.\<close>

definition lab_trusting ::
  "(HTTPClient \<Rightarrow> Request list \<Rightarrow> Request \<Rightarrow> error + Response) \<Rightarrow> extern" where
  "lab_trusting net = (lab net)\<lparr>rootOnlyVerifyCertificate := (\<lambda>raw chains. None)\<rparr>"

definition lab_ecdsa ::
  "(HTTPClient \<Rightarrow> Request list \<Rightarrow> Request \<Rightarrow> error + Response) \<Rightarrow> extern" where
  "lab_ecdsa net = (lab net)\<lparr>x509_ParseCertificate := (\<lambda>der. Some \<lparr>PublicKey = ECDSAKey\<rparr>)\<rparr>"

text \<open>A laboratory whose symmetric encryption fails, as when the nonce cannot be drawn.\<close>

definition lab_no_nonce ::
  "(HTTPClient \<Rightarrow> Request list \<Rightarrow> Request \<Rightarrow> error + Response) \<Rightarrow> extern" where
  "lab_no_nonce net =
     (lab net)\<lparr>GCMEncrypt := (\<lambda>k d. ([], Some (Error ''crypto/rand: read failed'')))\<rparr>"

section \<open>Facts about what the functions leave unchanged\<close>

lemmas lab_simps = lab_def serve_def w0_def httpsClient_def httpClient_def established_def
  log_Printf_def Client_Do_def toURL_def RandomAESKey_def

lemma log_Printf_keeps [simp]:
  "sent (log_Printf X f a w) = sent w"
  "rand_pos (log_Printf X f a w) = rand_pos w"
  "\<not> Debug X \<Longrightarrow> log_Printf X f a w = w"
  "(log_Printf X f a w)\<lparr>logs := l\<rparr> = w\<lparr>logs := l\<rparr>"
  by (simp_all add: log_Printf_def)

lemma getPublicKey_returns:
  assumes "getPublicKey X s w = (Returns r, w1)"
  shows "\<exists>req. http_NewRequest X ''GET'' (Origin s @ ''/rsakey'') None = Some req
           \<and> sent w1 = sent w @ [req] \<and> rand_pos w1 = rand_pos w"
  using assms
  by (auto simp: getPublicKey_def Client_Do_def Let_def
           split: option.splits sum.splits if_splits PublicKey.splits)

lemma getPublicKey_rand_pos:
  "rand_pos (snd (getPublicKey X s w)) = rand_pos w"
  by (auto simp: getPublicKey_def Client_Do_def Let_def
           split: option.splits sum.splits if_splits PublicKey.splits)

lemma getSessionID_keeps:
  assumes "getSessionID X s d w = (r, s', w')"
  shows "SessionKey s' = SessionKey s \<and> Origin s' = Origin s \<and> Client s' = Client s
         \<and> rand_pos w' = rand_pos w \<and> (\<exists>rest. sent w' = sent w @ rest)"
  using assms
  by (auto simp: getSessionID_def Client_Do_def Let_def
           split: option.splits sum.splits if_splits result.splits prod.splits)

text \<open>An attempt that returns has sent at least the request for the public key.\<close>

lemma SessionInit_returns_sent:
  assumes "SessionInit X s w = (Returns r, s', w')"
  shows "\<exists>req rest. http_NewRequest X ''GET'' (Origin s @ ''/rsakey'') None = Some req
           \<and> sent w' = sent w @ req # rest"
proof (cases "getPublicKey X s w")
  case (Pair g w1)
  show ?thesis
  proof (cases g)
    case Panics
    with Pair assms show ?thesis by (simp add: SessionInit_def)
  next
    case (Returns k)
    from getPublicKey_returns [OF Pair [unfolded Returns]]
    obtain req where req: "http_NewRequest X ''GET'' (Origin s @ ''/rsakey'') None = Some req"
      and s1: "sent w1 = sent w @ [req]" by blast
    show ?thesis
    proof (cases k)
      case None
      with Pair Returns assms req s1 show ?thesis by (auto simp: SessionInit_def)
    next
      case (Some pk)
      obtain enc eerr where
        enc: "RSAEncrypt X (proto_Marshal_HTTPSessionInit X (rand_keys X (rand_pos w1))) pk
                = (enc, eerr)"
        by (cases "RSAEncrypt X (proto_Marshal_HTTPSessionInit X (rand_keys X (rand_pos w1))) pk")
      show ?thesis
      proof (cases eerr)
        case (Some e)
        with Pair Returns \<open>k = Some pk\<close> enc assms req s1 show ?thesis
          by (auto simp: SessionInit_def RandomAESKey_def Let_def)
      next
        case None
        with Pair Returns \<open>k = Some pk\<close> enc assms
        have "getSessionID X (s\<lparr>SessionKey := Some (rand_keys X (rand_pos w1))\<rparr>) enc
                (w1\<lparr>rand_pos := Suc (rand_pos w1)\<rparr>) = (Returns r, s', w')"
          by (simp add: SessionInit_def RandomAESKey_def Let_def)
        from getSessionID_keeps [OF this] s1 req show ?thesis by auto
      qed
    qed
  qed
qed

lemma SessionInit_Origin:
  assumes "SessionInit X s w = (r, s', w')"
  shows "Origin s' = Origin s"
  using assms
  by (auto simp: SessionInit_def RandomAESKey_def Let_def
           split: option.splits result.splits prod.splits dest!: getSessionID_keeps)

text \<open>
  The random source is read exactly when the public key was obtained; the key drawn is
  stored in the client, and otherwise the client's key is left as it was.
\<close>

lemma SessionInit_key:
  assumes "SessionInit X s w = (r, s', w')"
  shows "((\<exists>pk. fst (getPublicKey X s w) = Returns (Some pk))
            \<longrightarrow> SessionKey s' = Some (rand_keys X (rand_pos w)) \<and> rand_pos w' = Suc (rand_pos w))
       \<and> (\<not> (\<exists>pk. fst (getPublicKey X s w) = Returns (Some pk))
            \<longrightarrow> SessionKey s' = SessionKey s \<and> rand_pos w' = rand_pos w)"
proof (cases "getPublicKey X s w")
  case (Pair g w1)
  have rp: "rand_pos w1 = rand_pos w"
    using getPublicKey_rand_pos [of X s w] Pair by simp
  show ?thesis
    using assms Pair rp
    by (auto simp: SessionInit_def RandomAESKey_def Let_def
             split: result.splits option.splits prod.splits dest!: getSessionID_keeps)
qed

text \<open>
  A lookup that misses makes the handler panic before it responds or forwards: the
  world is returned as it was.
\<close>

lemma rpcPortfwd_miss:
  "Hive_Sliver R (SliverID (proto_Unmarshal R req)) = None
     \<or> Tunnels_Tunnel R (TunnelID (proto_Unmarshal R req)) = None
   \<Longrightarrow> rpcPortfwd R req w = (Panics, w)"
  by (auto simp: rpcPortfwd_def Let_def split: option.splits)

section \<open>The claims\<close>

subsection \<open>C1: dispatch with an unknown implant or tunnel\<close>

text \<open>
  C1 says that a request whose implant or tunnel identifier is not registered ends with
  a not-found error handed to the caller, with nothing forwarded. The handler has no
  branch for a missed lookup. With implant 9 unknown (and with tunnel 43 unknown) it
  panics on the nil pointer: the callback \<^verbatim>\<open>resp\<close> is never called, so the caller
  gets no error, and nothing is forwarded.
\<close>

theorem rpcPortfwd_unknown_implant_panics:
  "Hive_Sliver rpc_lab (SliverID (proto_Unmarshal rpc_lab ''fwd 9 42'')) = None
   \<and> rpcPortfwd rpc_lab ''fwd 9 42'' rw0 = (Panics, rw0)
   \<and> Tunnels_Tunnel rpc_lab (TunnelID (proto_Unmarshal rpc_lab ''fwd 7 43'')) = None
   \<and> rpcPortfwd rpc_lab ''fwd 7 43'' rw0 = (Panics, rw0)
   \<and> responses rw0 = [] \<and> forwards rw0 = []"
  by (simp add: rpcPortfwd_def rpc_lab_def rw0_def)

subsection \<open>C2: Post when encryption fails\<close>

text \<open>
  C2 says that when the symmetric encryption of the payload fails, \<^verbatim>\<open>Post\<close> returns
  the encryption error and sends nothing. On an established channel whose encryption
  fails and returns no bytes, \<^verbatim>\<open>Post\<close> sends a POST request with an empty body and
  returns the decrypted answer of the server with a nil error: the encryption error is
  lost.
\<close>

theorem Post_sends_after_failed_encryption:
  "GCMEncrypt (lab_no_nonce (serve cmd_site)) ''k'' ''secret''
     = ([], Some (Error ''crypto/rand: read failed''))
   \<and> SessionKey established = Some ''k'' \<and> SessionID established = ''abc123''
   \<and> Post (lab_no_nonce (serve cmd_site)) established ''/cmd'' ''secret'' w0
     = (Returns (''done'', None),
        w0\<lparr>sent := [\<lparr>Method = ''POST'', URL = ''https://c2/cmd'', Body = Some []\<rparr>]\<rparr>)"
  by (simp add: Post_def lab_no_nonce_def cmd_site_def lab_simps)

subsection \<open>C3: the session request and the status of its response\<close>

text \<open>
  C3 says that \<^verbatim>\<open>getSessionID\<close> fails when the transport fails or when the response
  has a status other than success, and that such a response is never decrypted. The
  function reads the transport error only. When the server answers the POST to
  \<^verbatim>\<open>/start\<close> with status 500 and a body that decrypts under the session key,
  \<^verbatim>\<open>getSessionID\<close> decrypts the body, stores the plaintext as the session ID and
  returns a nil error.
\<close>

theorem getSessionID_accepts_error_status:
  "RoundTrip (lab (serve start_refuses)) (Client (httpsClient ''c2'')) []
       \<lparr>Method = ''POST'', URL = ''https://c2/start'', Body = Some ''wrapped''\<rparr>
     = Inr \<lparr>StatusCode = 500, RespBody = ''kabc123''\<rparr>
   \<and> getSessionID (lab (serve start_refuses))
       ((httpsClient ''c2'')\<lparr>SessionKey := Some ''k''\<rparr>) ''wrapped'' w0
     = (Returns None,
        (httpsClient ''c2'')\<lparr>SessionKey := Some ''k'', SessionID := ''abc123''\<rparr>,
        w0\<lparr>sent := [\<lparr>Method = ''POST'', URL = ''https://c2/start'', Body = Some ''wrapped''\<rparr>]\<rparr>)"
  by (simp add: getSessionID_def start_refuses_def lab_simps)

subsection \<open>C4: the fallback from the encrypted to the plaintext origin\<close>

text \<open>
  C4. \<^verbatim>\<open>HTTPStartSession\<close> first runs the handshake on the client of the origin
  \<open>https://address\<close>. If that attempt returns no error, the result is that client and
  the world is the one the first attempt left: nothing more is sent. If it returns an
  error, the handshake is run on the client of the origin \<open>http://address\<close>, which sends
  at least the key request to that origin; its success gives the second client, and its
  failure gives the error of the second attempt, whatever the first error was.
\<close>

theorem HTTPStartSession_fallback:
  assumes first: "SessionInit X (httpsClient address) w = (r1, c1, w1)"
      and second: "SessionInit X (httpClient address) w1 = (r2, c2, w2)"
  shows "(r1 = Returns None \<longrightarrow>
            HTTPStartSession X address w = (Returns (Some c1, None), w1)
          \<and> Origin c1 = ''https://'' @ address)
       \<and> (\<forall>e1. r1 = Returns (Some e1) \<longrightarrow>
            (r2 = Returns None \<longrightarrow>
               HTTPStartSession X address w = (Returns (Some c2, None), w2)
             \<and> Origin c2 = ''http://'' @ address)
          \<and> (\<forall>e2. r2 = Returns (Some e2) \<longrightarrow>
               HTTPStartSession X address w = (Returns (None, Some e2), w2))
          \<and> (r2 \<noteq> Panics \<longrightarrow>
               (\<exists>req rest.
                  http_NewRequest X ''GET'' (''http://'' @ address @ ''/rsakey'') None = Some req
                  \<and> sent w2 = sent w1 @ req # rest)))"
proof -
  have o1: "Origin c1 = ''https://'' @ address"
    using SessionInit_Origin [OF first] by (simp add: httpsClient_def)
  have o2: "Origin c2 = ''http://'' @ address"
    using SessionInit_Origin [OF second] by (simp add: httpClient_def)
  have tr: "r2 \<noteq> Panics \<Longrightarrow>
      \<exists>req rest. http_NewRequest X ''GET'' (''http://'' @ address @ ''/rsakey'') None = Some req
                  \<and> sent w2 = sent w1 @ req # rest"
  proof -
    assume "r2 \<noteq> Panics"
    then obtain r where "r2 = Returns r" by (cases r2) auto
    with second have "SessionInit X (httpClient address) w1 = (Returns r, c2, w2)" by simp
    from SessionInit_returns_sent [OF this] show ?thesis by (simp add: httpClient_def)
  qed
  show ?thesis
    using first second o1 o2 tr by (auto simp: HTTPStartSession_def)
qed

text \<open>
  Three runs: the encrypted origin answers; only the plaintext origin answers; the
  encrypted origin is refused (error \<open>error\<close>) and the plaintext origin fails at the
  session request, whose error is the one returned.
\<close>

theorem HTTPStartSession_fallback_witness:
  "HTTPStartSession (lab (serve tls_site)) ''c2'' w0
     = (Returns (Some ((httpsClient ''c2'')\<lparr>SessionKey := Some ''k'', SessionID := ''abc123''\<rparr>), None),
        \<lparr>sent = [\<lparr>Method = ''GET'', URL = ''https://c2/rsakey'', Body = None\<rparr>,
                 \<lparr>Method = ''POST'', URL = ''https://c2/start'', Body = Some ''k''\<rparr>],
         logs = [], rand_pos = 1\<rparr>)
   \<and> HTTPStartSession (lab (serve plain_only)) ''c2'' w0
     = (Returns (Some ((httpClient ''c2'')\<lparr>SessionKey := Some ''k'', SessionID := ''abc123''\<rparr>), None),
        \<lparr>sent = [\<lparr>Method = ''GET'', URL = ''https://c2/rsakey'', Body = None\<rparr>,
                 \<lparr>Method = ''GET'', URL = ''http://c2/rsakey'', Body = None\<rparr>,
                 \<lparr>Method = ''POST'', URL = ''http://c2/start'', Body = Some ''k''\<rparr>],
         logs = [], rand_pos = 1\<rparr>)
   \<and> fst (SessionInit (lab (serve plain_key_only)) (httpsClient ''c2'') w0)
     = Returns (Some (Error ''error''))
   \<and> HTTPStartSession (lab (serve plain_key_only)) ''c2'' w0
     = (Returns (None, Some (Error ''dial tcp: connection refused'')),
        \<lparr>sent = [\<lparr>Method = ''GET'', URL = ''https://c2/rsakey'', Body = None\<rparr>,
                 \<lparr>Method = ''GET'', URL = ''http://c2/rsakey'', Body = None\<rparr>,
                 \<lparr>Method = ''POST'', URL = ''http://c2/start'', Body = Some ''k''\<rparr>],
         logs = [], rand_pos = 1\<rparr>)"
proof -
  let ?get_tls = "\<lparr>Method = ''GET'', URL = ''https://c2/rsakey'', Body = None\<rparr>"
  let ?get_plain = "\<lparr>Method = ''GET'', URL = ''http://c2/rsakey'', Body = None\<rparr>"
  let ?post_tls = "\<lparr>Method = ''POST'', URL = ''https://c2/start'', Body = Some ''k''\<rparr>"
  let ?post_plain = "\<lparr>Method = ''POST'', URL = ''http://c2/start'', Body = Some ''k''\<rparr>"
  let ?refused = "\<lparr>sent = [?get_tls], logs = [], rand_pos = 0\<rparr>"
  have a1: "SessionInit (lab (serve tls_site)) (httpsClient ''c2'') w0
      = (Returns None, (httpsClient ''c2'')\<lparr>SessionKey := Some ''k'', SessionID := ''abc123''\<rparr>,
         \<lparr>sent = [?get_tls, ?post_tls], logs = [], rand_pos = 1\<rparr>)"
    by (simp add: SessionInit_def getPublicKey_def getSessionID_def tls_site_def lab_simps)
  obtain r c v where a2: "SessionInit (lab (serve tls_site)) (httpClient ''c2'')
      \<lparr>sent = [?get_tls, ?post_tls], logs = [], rand_pos = 1\<rparr> = (r, c, v)"
    using prod_cases3 by blast
  have b1: "SessionInit (lab (serve plain_only)) (httpsClient ''c2'') w0
      = (Returns (Some (Error ''error'')), httpsClient ''c2'', ?refused)"
    by (simp add: SessionInit_def getPublicKey_def plain_only_def lab_simps)
  have b2: "SessionInit (lab (serve plain_only)) (httpClient ''c2'') ?refused
      = (Returns None, (httpClient ''c2'')\<lparr>SessionKey := Some ''k'', SessionID := ''abc123''\<rparr>,
         \<lparr>sent = [?get_tls, ?get_plain, ?post_plain], logs = [], rand_pos = 1\<rparr>)"
    by (simp add: SessionInit_def getPublicKey_def getSessionID_def plain_only_def lab_simps)
  have c1: "SessionInit (lab (serve plain_key_only)) (httpsClient ''c2'') w0
      = (Returns (Some (Error ''error'')), httpsClient ''c2'', ?refused)"
    by (simp add: SessionInit_def getPublicKey_def plain_key_only_def lab_simps)
  have c2: "SessionInit (lab (serve plain_key_only)) (httpClient ''c2'') ?refused
      = (Returns (Some (Error ''dial tcp: connection refused'')),
         (httpClient ''c2'')\<lparr>SessionKey := Some ''k''\<rparr>,
         \<lparr>sent = [?get_tls, ?get_plain, ?post_plain], logs = [], rand_pos = 1\<rparr>)"
    by (simp add: SessionInit_def getPublicKey_def getSessionID_def plain_key_only_def lab_simps)
  show ?thesis
    using HTTPStartSession_fallback [OF a1 a2] HTTPStartSession_fallback [OF b1 b2]
          HTTPStartSession_fallback [OF c1 c2] c1
    by simp
qed

subsection \<open>C5: Get and Post before a session exists\<close>

text \<open>
  C5. On a channel whose session ID is empty or whose session key is unset, both
  \<^verbatim>\<open>Get\<close> and \<^verbatim>\<open>Post\<close> return the error "no session" at once: the world is
  returned as it was, so no request has been handed to the network (and nothing was
  logged or drawn from the random source).
\<close>

theorem no_session_fails_without_network:
  assumes "SessionKey s = None \<or> SessionID s = ''''"
  shows "Get X s urlPath w = (Returns ([], Some (Error ''no session'')), w)
       \<and> Post X s urlPath payload w = (Returns ([], Some (Error ''no session'')), w)
       \<and> sent (snd (Get X s urlPath w)) = sent w
       \<and> sent (snd (Post X s urlPath payload w)) = sent w"
  using assms by (auto simp: Get_def Post_def)

theorem no_session_fails_without_network_witness:
  "SessionKey (httpClient ''c2'') = None
   \<and> Get (lab (serve [])) (httpClient ''c2'') ''/poll'' w0
       = (Returns ([], Some (Error ''no session'')), w0)
   \<and> Post (lab (serve [])) (httpClient ''c2'') ''/poll'' ''data'' w0
       = (Returns ([], Some (Error ''no session'')), w0)
   \<and> sent (snd (Get (lab (serve [])) (httpClient ''c2'') ''/poll'' w0)) = []
   \<and> sent (snd (Post (lab (serve [])) (httpClient ''c2'') ''/poll'' ''data'' w0)) = []
   \<and> SessionKey ((httpsClient ''c2'')\<lparr>SessionKey := Some ''k''\<rparr>) = Some ''k''
   \<and> SessionID ((httpsClient ''c2'')\<lparr>SessionKey := Some ''k''\<rparr>) = []
   \<and> Get (lab (serve tls_site)) ((httpsClient ''c2'')\<lparr>SessionKey := Some ''k''\<rparr>) ''/poll'' w0
       = (Returns ([], Some (Error ''no session'')), w0)
   \<and> Post (lab (serve tls_site)) ((httpsClient ''c2'')\<lparr>SessionKey := Some ''k''\<rparr>)
         ''/poll'' ''data'' w0
       = (Returns ([], Some (Error ''no session'')), w0)
   \<and> SessionKey ((httpsClient ''c2'')\<lparr>SessionID := ''abc123''\<rparr>) = None
   \<and> Get (lab (serve tls_site)) ((httpsClient ''c2'')\<lparr>SessionID := ''abc123''\<rparr>) ''/poll'' w0
       = (Returns ([], Some (Error ''no session'')), w0)
   \<and> Post (lab (serve tls_site)) ((httpsClient ''c2'')\<lparr>SessionID := ''abc123''\<rparr>)
         ''/poll'' ''data'' w0
       = (Returns ([], Some (Error ''no session'')), w0)"
  using no_session_fails_without_network
          [of "httpClient ''c2''" "lab (serve [])" "''/poll''" w0 "''data''"]
        no_session_fails_without_network
          [of "(httpsClient ''c2'')\<lparr>SessionKey := Some ''k''\<rparr>" "lab (serve tls_site)"
              "''/poll''" w0 "''data''"]
        no_session_fails_without_network
          [of "(httpsClient ''c2'')\<lparr>SessionID := ''abc123''\<rparr>" "lab (serve tls_site)"
              "''/poll''" w0 "''data''"]
  by (simp add: httpClient_def httpsClient_def w0_def)

subsection \<open>C6: the session key of each attempt\<close>

text \<open>
  C6 says that every call of \<^verbatim>\<open>SessionInit\<close> generates a session key. An attempt
  whose key fetch fails returns before \<^verbatim>\<open>RandomAESKey\<close> is reached: with the server
  refusing the connection, \<^verbatim>\<open>SessionInit\<close> returns its error, the client has no
  session key and the random source has not been read.
\<close>

theorem SessionInit_without_key_counterexample:
  "fst (SessionInit (lab (serve [])) (httpsClient ''c2'') w0) = Returns (Some (Error ''error''))
   \<and> SessionKey (fst (snd (SessionInit (lab (serve [])) (httpsClient ''c2'') w0))) = None
   \<and> rand_pos (snd (snd (SessionInit (lab (serve [])) (httpsClient ''c2'') w0))) = rand_pos w0"
  by (simp add: SessionInit_def getPublicKey_def lab_simps)

text \<open>
  C6, amended. In \<^verbatim>\<open>HTTPStartSession\<close>, each of the two attempts that obtains the
  peer's public key draws the next key of the random source and stores it as the
  session key of its client, and an attempt that does not obtain the public key draws
  none and leaves its client without a key. The fallback attempt runs on a newly built
  client that holds no key. The key of a fallback that succeeds is the one drawn during
  the fallback; and when both clients hold a key, the first holds the key at the
  position where the random source stood at the start and the second the key at the
  next position, so the fallback does not reuse the first attempt's draw.
\<close>

theorem fallback_key_is_fresh:
  assumes first: "SessionInit X (httpsClient address) w = (r1, c1, w1)"
      and second: "SessionInit X (httpClient address) w1 = (r2, c2, w2)"
  shows "((\<exists>pk. fst (getPublicKey X (httpsClient address) w) = Returns (Some pk))
            \<longrightarrow> SessionKey c1 = Some (rand_keys X (rand_pos w)) \<and> rand_pos w1 = Suc (rand_pos w))
       \<and> (\<not> (\<exists>pk. fst (getPublicKey X (httpsClient address) w) = Returns (Some pk))
            \<longrightarrow> SessionKey c1 = None \<and> rand_pos w1 = rand_pos w)
       \<and> SessionKey (httpClient address) = None
       \<and> ((\<exists>pk. fst (getPublicKey X (httpClient address) w1) = Returns (Some pk))
            \<longrightarrow> SessionKey c2 = Some (rand_keys X (rand_pos w1)) \<and> rand_pos w2 = Suc (rand_pos w1))
       \<and> (\<not> (\<exists>pk. fst (getPublicKey X (httpClient address) w1) = Returns (Some pk))
            \<longrightarrow> SessionKey c2 = None \<and> rand_pos w2 = rand_pos w1)
       \<and> (\<forall>e1. r1 = Returns (Some e1) \<and> r2 = Returns None \<longrightarrow>
            HTTPStartSession X address w = (Returns (Some c2, None), w2)
          \<and> SessionKey c2 = Some (rand_keys X (rand_pos w1)))
       \<and> (\<forall>k1 k2. SessionKey c1 = Some k1 \<and> SessionKey c2 = Some k2 \<longrightarrow>
            k1 = rand_keys X (rand_pos w) \<and> k2 = rand_keys X (Suc (rand_pos w)))"
proof -
  note k1 = SessionInit_key [OF first]
  note k2 = SessionInit_key [OF second]
  have n1: "SessionKey (httpsClient address) = None" by (simp add: httpsClient_def)
  have n2: "SessionKey (httpClient address) = None" by (simp add: httpClient_def)
  have ok2: "r2 = Returns None \<Longrightarrow> SessionKey c2 = Some (rand_keys X (rand_pos w1))"
  proof -
    assume "r2 = Returns None"
    with second have "\<exists>pk. fst (getPublicKey X (httpClient address) w1) = Returns (Some pk)"
      by (auto simp: SessionInit_def split: result.splits option.splits prod.splits)
    with k2 show ?thesis by blast
  qed
  have hs: "\<And>e1. r1 = Returns (Some e1) \<Longrightarrow> r2 = Returns None \<Longrightarrow>
      HTTPStartSession X address w = (Returns (Some c2, None), w2)"
    using first second by (simp add: HTTPStartSession_def)
  have pair: "\<And>k1 k2. SessionKey c1 = Some k1 \<Longrightarrow> SessionKey c2 = Some k2 \<Longrightarrow>
      k1 = rand_keys X (rand_pos w) \<and> k2 = rand_keys X (Suc (rand_pos w))"
    using k1 k2 n1 n2 by (metis option.distinct(1) option.inject)
  have A: "(\<exists>pk. fst (getPublicKey X (httpsClient address) w) = Returns (Some pk))
            \<longrightarrow> SessionKey c1 = Some (rand_keys X (rand_pos w)) \<and> rand_pos w1 = Suc (rand_pos w)"
    using k1 by (rule conjunct1)
  have B: "\<not> (\<exists>pk. fst (getPublicKey X (httpsClient address) w) = Returns (Some pk))
            \<longrightarrow> SessionKey c1 = None \<and> rand_pos w1 = rand_pos w"
    using conjunct2 [OF k1] n1 by simp
  have C: "(\<exists>pk. fst (getPublicKey X (httpClient address) w1) = Returns (Some pk))
            \<longrightarrow> SessionKey c2 = Some (rand_keys X (rand_pos w1)) \<and> rand_pos w2 = Suc (rand_pos w1)"
    using k2 by (rule conjunct1)
  have D: "\<not> (\<exists>pk. fst (getPublicKey X (httpClient address) w1) = Returns (Some pk))
            \<longrightarrow> SessionKey c2 = None \<and> rand_pos w2 = rand_pos w1"
    using conjunct2 [OF k2] n2 by simp
  have E: "\<forall>e1. r1 = Returns (Some e1) \<and> r2 = Returns None \<longrightarrow>
            HTTPStartSession X address w = (Returns (Some c2, None), w2)
          \<and> SessionKey c2 = Some (rand_keys X (rand_pos w1))"
    using ok2 hs by blast
  have F: "\<forall>k1 k2. SessionKey c1 = Some k1 \<and> SessionKey c2 = Some k2 \<longrightarrow>
            k1 = rand_keys X (rand_pos w) \<and> k2 = rand_keys X (Suc (rand_pos w))"
    using pair by blast
  from A B n2 C D E F show ?thesis by (intro conjI)
qed

text \<open>
  A run in which both attempts draw a key: the encrypted origin serves the certificate
  but refuses the session request, and the plaintext origin completes the handshake.
  The first client held the first key of the source, the returned client holds the
  second.
\<close>

theorem fallback_key_is_fresh_witness:
  "SessionKey (fst (snd (SessionInit (lab (serve half_tls)) (httpsClient ''c2'') w0))) = Some ''k''
   \<and> HTTPStartSession (lab (serve half_tls)) ''c2'' w0
     = (Returns (Some ((httpClient ''c2'')\<lparr>SessionKey := Some ''kk'', SessionID := ''abc123''\<rparr>), None),
        \<lparr>sent = [\<lparr>Method = ''GET'', URL = ''https://c2/rsakey'', Body = None\<rparr>,
                 \<lparr>Method = ''POST'', URL = ''https://c2/start'', Body = Some ''k''\<rparr>,
                 \<lparr>Method = ''GET'', URL = ''http://c2/rsakey'', Body = None\<rparr>,
                 \<lparr>Method = ''POST'', URL = ''http://c2/start'', Body = Some ''kk''\<rparr>],
         logs = [], rand_pos = 2\<rparr>)"
proof -
  let ?X = "lab (serve half_tls)"
  let ?w1 = "\<lparr>sent = [\<lparr>Method = ''GET'', URL = ''https://c2/rsakey'', Body = None\<rparr>,
                     \<lparr>Method = ''POST'', URL = ''https://c2/start'', Body = Some ''k''\<rparr>],
             logs = [], rand_pos = 1\<rparr>"
  let ?w2 = "\<lparr>sent = [\<lparr>Method = ''GET'', URL = ''https://c2/rsakey'', Body = None\<rparr>,
                     \<lparr>Method = ''POST'', URL = ''https://c2/start'', Body = Some ''k''\<rparr>,
                     \<lparr>Method = ''GET'', URL = ''http://c2/rsakey'', Body = None\<rparr>,
                     \<lparr>Method = ''POST'', URL = ''http://c2/start'', Body = Some ''kk''\<rparr>],
             logs = [], rand_pos = 2\<rparr>"
  have first: "SessionInit ?X (httpsClient ''c2'') w0
      = (Returns (Some (Error ''dial tcp: connection refused'')),
         (httpsClient ''c2'')\<lparr>SessionKey := Some ''k''\<rparr>, ?w1)"
    by (simp add: SessionInit_def getPublicKey_def getSessionID_def half_tls_def lab_simps Let_def)
  have second: "SessionInit ?X (httpClient ''c2'') ?w1
      = (Returns None, (httpClient ''c2'')\<lparr>SessionKey := Some ''kk'', SessionID := ''abc123''\<rparr>, ?w2)"
    by (simp add: SessionInit_def getPublicKey_def getSessionID_def half_tls_def lab_simps Let_def)
  note t = fallback_key_is_fresh [OF first second]
  from t have "HTTPStartSession ?X ''c2'' w0
      = (Returns (Some ((httpClient ''c2'')\<lparr>SessionKey := Some ''kk'', SessionID := ''abc123''\<rparr>), None), ?w2)"
    by blast
  with first show ?thesis by simp
qed

subsection \<open>C7: failures of the key fetch\<close>

text \<open>
  C7. When the request for the public key can be built and the key fetch fails in any
  of the four ways (the transport returns an error; the status is not 200; the body
  holds no PEM block; the pinned verification rejects the block), \<^verbatim>\<open>SessionInit\<close>
  returns the same error \<open>error\<close>, leaves the client as it was, and leaves a world
  that differs from the initial one by the one request sent and by the log alone. In a
  build without debugging the four results are equal: a parse failure and a
  verification failure cannot be told apart.
\<close>

theorem key_fetch_failure_aborts:
  assumes req: "http_NewRequest X ''GET'' (Origin s @ ''/rsakey'') None = Some req"
      and fails:
        "(\<exists>err. RoundTrip X (Client s) (sent w) req = Inl err)
         \<or> (\<exists>resp. RoundTrip X (Client s) (sent w) req = Inr resp \<and> StatusCode resp \<noteq> 200)
         \<or> (\<exists>resp. RoundTrip X (Client s) (sent w) req = Inr resp \<and> StatusCode resp = 200
                \<and> pem_Decode X (RespBody resp) = None)
         \<or> (\<exists>resp blk certErr. RoundTrip X (Client s) (sent w) req = Inr resp
                \<and> StatusCode resp = 200 \<and> pem_Decode X (RespBody resp) = Some blk
                \<and> rootOnlyVerifyCertificate X [Bytes blk] [] = Some certErr)"
  shows "fst (SessionInit X s w) = Returns (Some (Error ''error''))
       \<and> fst (snd (SessionInit X s w)) = s
       \<and> (snd (snd (SessionInit X s w)))\<lparr>logs := logs w\<rparr> = w\<lparr>sent := sent w @ [req]\<rparr>
       \<and> (\<not> Debug X \<longrightarrow>
            SessionInit X s w = (Returns (Some (Error ''error'')), s, w\<lparr>sent := sent w @ [req]\<rparr>))"
proof -
  have g: "fst (getPublicKey X s w) = Returns None
         \<and> (snd (getPublicKey X s w))\<lparr>logs := logs w\<rparr> = w\<lparr>sent := sent w @ [req]\<rparr>"
    using req fails by (auto simp: getPublicKey_def Client_Do_def Let_def)
  obtain w1 where w1: "getPublicKey X s w = (Returns None, w1)"
    and l1: "w1\<lparr>logs := logs w\<rparr> = w\<lparr>sent := sent w @ [req]\<rparr>"
    using g by (cases "getPublicKey X s w") auto
  have nd: "\<not> Debug X \<Longrightarrow> w1 = w\<lparr>sent := sent w @ [req]\<rparr>"
    using w1 req fails by (auto simp: getPublicKey_def Client_Do_def Let_def)
  show ?thesis
    using w1 l1 nd by (simp add: SessionInit_def)
qed

text \<open>One run for each way of failing, all with the same result.\<close>

theorem key_fetch_failure_aborts_witness:
  "SessionInit (lab (serve [])) (httpsClient ''c2'') w0
     = (Returns (Some (Error ''error'')), httpsClient ''c2'',
        w0\<lparr>sent := [\<lparr>Method = ''GET'', URL = ''https://c2/rsakey'', Body = None\<rparr>]\<rparr>)
   \<and> SessionInit (lab (serve bad_status)) (httpsClient ''c2'') w0
     = (Returns (Some (Error ''error'')), httpsClient ''c2'',
        w0\<lparr>sent := [\<lparr>Method = ''GET'', URL = ''https://c2/rsakey'', Body = None\<rparr>]\<rparr>)
   \<and> SessionInit (lab (serve bad_pem)) (httpsClient ''c2'') w0
     = (Returns (Some (Error ''error'')), httpsClient ''c2'',
        w0\<lparr>sent := [\<lparr>Method = ''GET'', URL = ''https://c2/rsakey'', Body = None\<rparr>]\<rparr>)
   \<and> SessionInit (lab (serve unpinned)) (httpsClient ''c2'') w0
     = (Returns (Some (Error ''error'')), httpsClient ''c2'',
        w0\<lparr>sent := [\<lparr>Method = ''GET'', URL = ''https://c2/rsakey'', Body = None\<rparr>]\<rparr>)"
proof -
  let ?req = "\<lparr>Method = ''GET'', URL = ''https://c2/rsakey'', Body = None\<rparr>"
  have a: "SessionInit (lab (serve [])) (httpsClient ''c2'') w0
     = (Returns (Some (Error ''error'')), httpsClient ''c2'', w0\<lparr>sent := [?req]\<rparr>)"
    using key_fetch_failure_aborts [of "lab (serve [])" "httpsClient ''c2''" ?req w0]
    by (simp add: lab_def serve_def httpsClient_def w0_def)
  have b: "SessionInit (lab (serve bad_status)) (httpsClient ''c2'') w0
     = (Returns (Some (Error ''error'')), httpsClient ''c2'', w0\<lparr>sent := [?req]\<rparr>)"
    using key_fetch_failure_aborts [of "lab (serve bad_status)" "httpsClient ''c2''" ?req w0]
    by (simp add: lab_def serve_def bad_status_def httpsClient_def w0_def)
  have c: "SessionInit (lab (serve bad_pem)) (httpsClient ''c2'') w0
     = (Returns (Some (Error ''error'')), httpsClient ''c2'', w0\<lparr>sent := [?req]\<rparr>)"
    using key_fetch_failure_aborts [of "lab (serve bad_pem)" "httpsClient ''c2''" ?req w0]
    by (simp add: lab_def serve_def bad_pem_def httpsClient_def w0_def)
  have d: "SessionInit (lab (serve unpinned)) (httpsClient ''c2'') w0
     = (Returns (Some (Error ''error'')), httpsClient ''c2'', w0\<lparr>sent := [?req]\<rparr>)"
    using key_fetch_failure_aborts [of "lab (serve unpinned)" "httpsClient ''c2''" ?req w0]
    by (simp add: lab_def serve_def unpinned_def httpsClient_def w0_def)
  show ?thesis using a b c d by simp
qed

subsection \<open>C8: dispatch when implant and tunnel resolve\<close>

text \<open>
  C8 says that whenever implant and tunnel resolve, the handler forwards the re-encoded
  request once. The handler forwards only if \<^verbatim>\<open>proto.Marshal\<close> returns no error:
  with implant 7 and tunnel 42 registered and a host that cannot be marshalled, it
  hands the caller empty bytes with the marshalling error and forwards nothing.
\<close>

theorem rpcPortfwd_marshal_error_counterexample:
  "Hive_Sliver rpc_lab (SliverID (proto_Unmarshal rpc_lab ''bad 7 42'')) = Some \<lparr>Sliver.ID = 7\<rparr>
   \<and> Tunnels_Tunnel rpc_lab (TunnelID (proto_Unmarshal rpc_lab ''bad 7 42'')) = Some \<lparr>Tunnel.ID = 42\<rparr>
   \<and> fst (rpcPortfwd rpc_lab ''bad 7 42'' rw0) = Returns ()
   \<and> forwards (snd (rpcPortfwd rpc_lab ''bad 7 42'' rw0)) = []
   \<and> responses (snd (rpcPortfwd rpc_lab ''bad 7 42'' rw0))
       = [([], Some (Error ''proto: field contains invalid UTF-8''))]"
  by (simp add: rpcPortfwd_def rpc_lab_def rw0_def)

text \<open>
  C8, amended. When implant and tunnel resolve and the re-encoding succeeds, the
  handler forwards the re-encoded request (host and port of the inbound request, the
  identifiers of the resolved handles) to that implant exactly once, with the message
  type of a port-forward request and the default timeout, and calls \<^verbatim>\<open>resp\<close> once
  with exactly the bytes and the error of that forwarding. When the re-encoding fails,
  it calls \<^verbatim>\<open>resp\<close> once with empty bytes and the encoding error and forwards
  nothing.
\<close>

theorem rpcPortfwd_forwards_once:
  assumes "Hive_Sliver R (SliverID (proto_Unmarshal R req)) = Some sl"
      and "Tunnels_Tunnel R (TunnelID (proto_Unmarshal R req)) = Some tn"
      and "proto_Marshal R \<lparr>Host = Host (proto_Unmarshal R req), Port = Port (proto_Unmarshal R req),
                            SliverID = Sliver.ID sl, TunnelID = Tunnel.ID tn\<rparr> = (enc, merr)"
  shows "(merr = None \<longrightarrow>
            fst (rpcPortfwd R req w) = Returns ()
          \<and> forwards (snd (rpcPortfwd R req w))
              = forwards w @ [(sl, MsgPortfwdReq R, rpc_defaultTimeout R, enc)]
          \<and> responses (snd (rpcPortfwd R req w))
              = responses w @ [Sliver_Request R (forwards w) sl (MsgPortfwdReq R)
                                 (rpc_defaultTimeout R) enc])
       \<and> (\<forall>e. merr = Some e \<longrightarrow>
            fst (rpcPortfwd R req w) = Returns ()
          \<and> forwards (snd (rpcPortfwd R req w)) = forwards w
          \<and> responses (snd (rpcPortfwd R req w)) = responses w @ [([], Some e)])"
  using assms by (auto simp: rpcPortfwd_def Let_def)

theorem rpcPortfwd_forwards_once_witness:
  "fst (rpcPortfwd rpc_lab ''fwd 7 42'' rw0) = Returns ()
   \<and> forwards (snd (rpcPortfwd rpc_lab ''fwd 7 42'' rw0))
       = [(\<lparr>Sliver.ID = 7\<rparr>, 23, 30000000000, ''10.0.0.5'')]
   \<and> responses (snd (rpcPortfwd rpc_lab ''fwd 7 42'' rw0)) = [(''ok'', None)]
   \<and> forwards (snd (rpcPortfwd rpc_lab ''bad 7 42'' rw0)) = []
   \<and> responses (snd (rpcPortfwd rpc_lab ''bad 7 42'' rw0))
       = [([], Some (Error ''proto: field contains invalid UTF-8''))]"
  using rpcPortfwd_forwards_once
          [of rpc_lab "''fwd 7 42''" "\<lparr>Sliver.ID = 7\<rparr>" "\<lparr>Tunnel.ID = 42\<rparr>" "''10.0.0.5''" None rw0]
        rpcPortfwd_forwards_once
          [of rpc_lab "''bad 7 42''" "\<lparr>Sliver.ID = 7\<rparr>" "\<lparr>Tunnel.ID = 42\<rparr>" "[]"
              "Some (Error ''proto: field contains invalid UTF-8'')" rw0]
  by (simp add: rpc_lab_def rw0_def)

subsection \<open>C9: the public key of a verified certificate\<close>

text \<open>
  C9. Once the key request was answered with status 200, the body held a PEM block and
  the pinned verification accepted it, \<^verbatim>\<open>getPublicKey\<close> parses the block again,
  drops the parse error and asserts that the public key is an RSA key: it panics when
  the parse gave nil or when the key is not an RSA key, and returns the key when it is
  one. It returns nil in neither case.
\<close>

theorem getPublicKey_panics_after_verification:
  assumes req: "http_NewRequest X ''GET'' (Origin s @ ''/rsakey'') None = Some req"
      and resp: "RoundTrip X (Client s) (sent w) req = Inr resp" "StatusCode resp = 200"
      and pem: "pem_Decode X (RespBody resp) = Some blk"
      and verified: "rootOnlyVerifyCertificate X [Bytes blk] [] = None"
  shows "(x509_ParseCertificate X (Bytes blk) = None
            \<or> (\<exists>cert. x509_ParseCertificate X (Bytes blk) = Some cert
                  \<and> (\<forall>k. PublicKey cert \<noteq> RSAKey k))
          \<longrightarrow> fst (getPublicKey X s w) = Panics)
       \<and> (\<forall>cert k. x509_ParseCertificate X (Bytes blk) = Some cert \<and> PublicKey cert = RSAKey k
            \<longrightarrow> fst (getPublicKey X s w) = Returns (Some k))"
  using assms
  by (auto simp: getPublicKey_def Client_Do_def Let_def split: PublicKey.splits)

text \<open>
  Three runs: a verified block that does not parse, a verified certificate with an
  ECDSA key, and the pinned certificate with its RSA key.
\<close>

theorem getPublicKey_panics_after_verification_witness:
  "fst (getPublicKey (lab_trusting (serve unpinned)) (httpsClient ''c2'') w0) = Panics
   \<and> fst (getPublicKey (lab_ecdsa (serve tls_site)) (httpsClient ''c2'') w0) = Panics
   \<and> fst (getPublicKey (lab (serve tls_site)) (httpsClient ''c2'') w0)
       = Returns (Some (RSAPub 3233 17))"
proof -
  let ?req = "\<lparr>Method = ''GET'', URL = ''https://c2/rsakey'', Body = None\<rparr>"
  have a: "fst (getPublicKey (lab_trusting (serve unpinned)) (httpsClient ''c2'') w0) = Panics"
    using getPublicKey_panics_after_verification
            [of "lab_trusting (serve unpinned)" "httpsClient ''c2''" ?req w0
                "\<lparr>StatusCode = 200, RespBody = ''forged''\<rparr>"
                "\<lparr>BlockType = ''CERTIFICATE'', Bytes = ''forged''\<rparr>"]
    by (simp add: lab_trusting_def lab_def serve_def unpinned_def httpsClient_def w0_def)
  have b: "fst (getPublicKey (lab_ecdsa (serve tls_site)) (httpsClient ''c2'') w0) = Panics"
    using getPublicKey_panics_after_verification
            [of "lab_ecdsa (serve tls_site)" "httpsClient ''c2''" ?req w0
                "\<lparr>StatusCode = 200, RespBody = ''pinned''\<rparr>"
                "\<lparr>BlockType = ''CERTIFICATE'', Bytes = ''pinned''\<rparr>"]
    by (simp add: lab_ecdsa_def lab_def serve_def tls_site_def httpsClient_def w0_def)
  have c: "fst (getPublicKey (lab (serve tls_site)) (httpsClient ''c2'') w0)
       = Returns (Some (RSAPub 3233 17))"
    using getPublicKey_panics_after_verification
            [of "lab (serve tls_site)" "httpsClient ''c2''" ?req w0
                "\<lparr>StatusCode = 200, RespBody = ''pinned''\<rparr>"
                "\<lparr>BlockType = ''CERTIFICATE'', Bytes = ''pinned''\<rparr>"]
    by (simp add: lab_def serve_def tls_site_def httpsClient_def w0_def)
  show ?thesis using a b c by simp
qed

subsection \<open>C10: a handshake that yields the empty session ID\<close>

text \<open>
  C10. When the handshake runs through (the public key is obtained, the wrap succeeds,
  the session request is answered) and the answer decrypts without error to the empty
  byte string, \<^verbatim>\<open>SessionInit\<close> returns no error and leaves the client with the
  session key set and the empty session ID; on that client every \<^verbatim>\<open>Get\<close> and
  every \<^verbatim>\<open>Post\<close> returns the error "no session" without touching the world.
\<close>

theorem empty_session_id_is_not_established:
  assumes key: "getPublicKey X s w = (Returns (Some pk), w1)"
      and wrap: "RSAEncrypt X (proto_Marshal_HTTPSessionInit X (rand_keys X (rand_pos w1))) pk
                   = (enc, None)"
      and url: "toURL X s ''/start'' = Returns u"
      and req: "http_NewRequest X ''POST'' u (Some enc) = Some req"
      and resp: "RoundTrip X (Client s) (sent w1) req = Inr resp"
      and dec: "GCMDecrypt X (rand_keys X (rand_pos w1)) (RespBody resp) = ([], None)"
  shows "fst (SessionInit X s w) = Returns None
       \<and> SessionID (fst (snd (SessionInit X s w))) = ''''
       \<and> SessionKey (fst (snd (SessionInit X s w))) = Some (rand_keys X (rand_pos w1))
       \<and> (\<forall>urlPath payload v.
            Get X (fst (snd (SessionInit X s w))) urlPath v
              = (Returns ([], Some (Error ''no session'')), v)
          \<and> Post X (fst (snd (SessionInit X s w))) urlPath payload v
              = (Returns ([], Some (Error ''no session'')), v))"
proof -
  have "SessionInit X s w
      = (Returns None, s\<lparr>SessionKey := Some (rand_keys X (rand_pos w1)), SessionID := ''''\<rparr>,
         w1\<lparr>rand_pos := Suc (rand_pos w1), sent := sent w1 @ [req]\<rparr>)"
    using assms
    by (simp add: SessionInit_def RandomAESKey_def getSessionID_def toURL_def Client_Do_def Let_def)
  then show ?thesis by (simp add: Get_def Post_def)
qed

theorem empty_session_id_is_not_established_witness:
  "fst (SessionInit (lab (serve empty_id_site)) (httpsClient ''c2'') w0) = Returns None
   \<and> fst (snd (SessionInit (lab (serve empty_id_site)) (httpsClient ''c2'') w0))
       = (httpsClient ''c2'')\<lparr>SessionKey := Some ''k'', SessionID := ''''\<rparr>
   \<and> Get (lab (serve empty_id_site))
        (fst (snd (SessionInit (lab (serve empty_id_site)) (httpsClient ''c2'') w0))) ''/poll'' w0
       = (Returns ([], Some (Error ''no session'')), w0)
   \<and> Post (lab (serve empty_id_site))
        (fst (snd (SessionInit (lab (serve empty_id_site)) (httpsClient ''c2'') w0))) ''/poll'' ''data'' w0
       = (Returns ([], Some (Error ''no session'')), w0)"
proof -
  let ?X = "lab (serve empty_id_site)"
  let ?w1 = "w0\<lparr>sent := [\<lparr>Method = ''GET'', URL = ''https://c2/rsakey'', Body = None\<rparr>]\<rparr>"
  have key: "getPublicKey ?X (httpsClient ''c2'') w0 = (Returns (Some (RSAPub 3233 17)), ?w1)"
    by (simp add: getPublicKey_def empty_id_site_def lab_simps)
  have wrap: "RSAEncrypt ?X (proto_Marshal_HTTPSessionInit ?X (rand_keys ?X (rand_pos ?w1)))
                (RSAPub 3233 17) = (''k'', None)"
    by (simp add: lab_def w0_def)
  have url: "toURL ?X (httpsClient ''c2'') ''/start'' = Returns ''https://c2/start''"
    by (simp add: lab_simps)
  have req: "http_NewRequest ?X ''POST'' ''https://c2/start'' (Some ''k'')
               = Some \<lparr>Method = ''POST'', URL = ''https://c2/start'', Body = Some ''k''\<rparr>"
    by (simp add: lab_def)
  have resp: "RoundTrip ?X (Client (httpsClient ''c2'')) (sent ?w1)
                \<lparr>Method = ''POST'', URL = ''https://c2/start'', Body = Some ''k''\<rparr>
               = Inr \<lparr>StatusCode = 200, RespBody = ''k''\<rparr>"
    by (simp add: empty_id_site_def lab_simps)
  have dec: "GCMDecrypt ?X (rand_keys ?X (rand_pos ?w1))
               (RespBody \<lparr>StatusCode = 200, RespBody = ''k''\<rparr>) = ([], None)"
    by (simp add: lab_def w0_def)
  have rest: "fst (snd (SessionInit ?X (httpsClient ''c2'') w0))
       = (httpsClient ''c2'')\<lparr>SessionKey := Some ''k'', SessionID := ''''\<rparr>"
    by (simp add: SessionInit_def getPublicKey_def getSessionID_def empty_id_site_def
                  lab_simps Let_def)
  note t = empty_session_id_is_not_established [OF key wrap url req resp dec]
  from t have ok: "fst (SessionInit ?X (httpsClient ''c2'') w0) = Returns None"
    by (rule conjunct1)
  from t have g: "Get ?X (fst (snd (SessionInit ?X (httpsClient ''c2'') w0))) ''/poll'' w0
       = (Returns ([], Some (Error ''no session'')), w0)"
    by blast
  from t have p: "Post ?X (fst (snd (SessionInit ?X (httpsClient ''c2'') w0))) ''/poll'' ''data'' w0
       = (Returns ([], Some (Error ''no session'')), w0)"
    by blast
  from ok rest g p show ?thesis by (intro conjI)
qed

end
